theory Spec2Isabelle
  imports Complex_Main "HOL-Library.AList"
begin

section \<open>Strings and the Unicode tables\<close>

text \<open>
  A Python \<open>str\<close> is a sequence of Unicode code points, so a string is a list of
  code points (natural numbers); \<open>str\<close> turns an ASCII literal into one.
\<close>

type_synonym ustr = "nat list"

definition str :: "string \<Rightarrow> ustr" where
  "str s = map of_char s"

text \<open>
  \<open>map-players.py\<close> reads the Unicode character database through the standard library:
  \<open>str.lower\<close>, \<open>unicodedata.normalize('NFKD', _)\<close>, \<open>unicodedata.combining\<close>, and the
  regular-expression classes \<open>\w\<close> (alphanumeric or underscore) and \<open>\s\<close> (whitespace, the
  same set that \<open>str.strip\<close> removes). The tables are not part of the script, so they are a
  parameter of the model.
\<close>

record ucd =
  py_lower :: "ustr \<Rightarrow> ustr"
  nfkd :: "ustr \<Rightarrow> ustr"
  combining :: "nat \<Rightarrow> nat"
  isalnum :: "nat \<Rightarrow> bool"
  isspace :: "nat \<Rightarrow> bool"

definition is_word :: "ucd \<Rightarrow> nat \<Rightarrow> bool" where
  "is_word U c = (isalnum U c \<or> c = 95)"

text \<open>
  The tables on the code points 0 to 127 and on U+2122 (TRADE MARK SIGN), as CPython has
  them: only A to Z have a lowercase mapping; every ASCII character is its own
  compatibility decomposition, while U+2122 (which has no case mapping) decomposes to the
  two letters T and M; none of these has a combining class; the alphanumerics are the
  digits and letters; whitespace is TAB, LF, VT, FF, CR, the separators 28 to 31 and the
  space. Other code points are outside this fragment, and no statement below evaluates
  it on them.
\<close>

definition lower_cp :: "nat \<Rightarrow> nat" where
  "lower_cp c = (if 65 \<le> c \<and> c \<le> 90 then c + 32 else c)"

definition decomp_cp :: "nat \<Rightarrow> ustr" where
  "decomp_cp c = (if c = 8482 then [84, 77] else [c])"

definition alnum_cp :: "nat \<Rightarrow> bool" where
  "alnum_cp c = ((48 \<le> c \<and> c \<le> 57) \<or> (65 \<le> c \<and> c \<le> 90) \<or> (97 \<le> c \<and> c \<le> 122))"

definition space_cp :: "nat \<Rightarrow> bool" where
  "space_cp c = ((9 \<le> c \<and> c \<le> 13) \<or> (28 \<le> c \<and> c \<le> 32))"

definition ucd_basic :: ucd where
  "ucd_basic = \<lparr> py_lower = map lower_cp, nfkd = (\<lambda>s. concat (map decomp_cp s)),
                  combining = (\<lambda>c. 0), isalnum = alnum_cp, isspace = space_cp \<rparr>"

section \<open>normalize\<close>

text \<open>\<open>re.sub(r'\s+', ' ', name)\<close>: every maximal run of whitespace becomes one space.\<close>

function collapse_ws :: "ucd \<Rightarrow> ustr \<Rightarrow> ustr" where
  "collapse_ws U [] = []"
| "collapse_ws U (c # cs) =
     (if isspace U c then 32 # collapse_ws U (dropWhile (isspace U) cs)
      else c # collapse_ws U cs)"
  by pat_completeness auto
termination
  by (relation "measure (\<lambda>(U, s). length s)")
     (auto simp: less_Suc_eq_le length_dropWhile_le)

text \<open>\<open>name.strip()\<close>: whitespace is removed from both ends.\<close>

definition strip :: "ucd \<Rightarrow> ustr \<Rightarrow> ustr" where
  "strip U s = rev (dropWhile (isspace U) (rev (dropWhile (isspace U) s)))"

text \<open>
  \<open>normalize\<close> (lines 7 to 16), statement by statement: the empty name gives the empty
  string; lowercase and replace the hyphen (45) by a space (32); decompose; drop the
  characters with a combining class; drop what is neither \<open>\w\<close> nor \<open>\s\<close>; collapse
  whitespace and strip.
\<close>

definition normalize :: "ucd \<Rightarrow> ustr \<Rightarrow> ustr" where
  "normalize U name =
     (if name = [] then []
      else
        let n1 = map (\<lambda>c. if c = 45 then 32 else c) (py_lower U name);
            n2 = nfkd U n1;
            n3 = filter (\<lambda>c. combining U c = 0) n2;
            n4 = filter (\<lambda>c. is_word U c \<or> isspace U c) n3;
            n5 = collapse_ws U n4
        in strip U n5)"

section \<open>Similarity and the best fuzzy match\<close>

text \<open>
  \<open>SequenceMatcher(None, a, b).ratio()\<close> is a library function returning a float; it is
  the parameter \<open>ratio\<close>. A float is modelled by the rational number it denotes: the script
  only compares scores, and a comparison of two floats is the comparison of the numbers
  they denote. The literal \<open>0.86\<close> denotes the binary64 number
  7746191359077253 / 2^53.
\<close>

type_synonym pyfloat = rat

definition min_score_086 :: pyfloat where
  "min_score_086 = 7746191359077253 / 9007199254740992"

definition similarity :: "(ustr \<Rightarrow> ustr \<Rightarrow> pyfloat) \<Rightarrow> ustr \<Rightarrow> ustr \<Rightarrow> pyfloat" where
  "similarity ratio a b = (if a \<noteq> [] \<and> b \<noteq> [] then ratio a b else 0)"

text \<open>
  A Python \<open>dict\<close> keeps its keys in insertion order, and storing under a key that is
  already there keeps the key's place: an association list, with \<open>AList.update\<close> as
  \<open>d[k] = v\<close> and \<open>map_of\<close> as the lookup. The external codes are integers.
\<close>

type_synonym ('k, 'v) dict = "('k \<times> 'v) list"

definition dict_set :: "('k, 'v) dict \<Rightarrow> 'k \<Rightarrow> 'v \<Rightarrow> ('k, 'v) dict" where
  "dict_set d k v = AList.update k v d"

text \<open>The loop of \<open>best_fuzzy_match\<close> (lines 25 to 29) over \<open>candidates.items()\<close>.\<close>

fun best_loop :: "(ustr \<Rightarrow> ustr \<Rightarrow> pyfloat) \<Rightarrow> ustr \<Rightarrow> (ustr, int) dict
    \<Rightarrow> int option \<times> pyfloat \<Rightarrow> int option \<times> pyfloat" where
  "best_loop ratio local_name [] best = best"
| "best_loop ratio local_name ((cand_name, code) # rest) (best_code, best_score) =
     (let score = similarity ratio local_name cand_name
      in if score > best_score then best_loop ratio local_name rest (Some code, score)
         else best_loop ratio local_name rest (best_code, best_score))"

definition best_fuzzy_match ::
    "(ustr \<Rightarrow> ustr \<Rightarrow> pyfloat) \<Rightarrow> ustr \<Rightarrow> (ustr, int) dict \<Rightarrow> pyfloat \<Rightarrow> int option \<times> pyfloat" where
  "best_fuzzy_match ratio local_name candidates min_score =
     (case best_loop ratio local_name candidates (None, 0) of
        (best_code, best_score) \<Rightarrow>
          if best_score \<ge> min_score then (best_code, best_score) else (None, best_score))"

section \<open>The lookup index\<close>

record fpl_element =
  first_name :: ustr
  second_name :: ustr
  web_name :: ustr
  fpl_code :: int

text \<open>Lines 47 to 55: three keys for each element, in this order.\<close>

fun build_lookup :: "ucd \<Rightarrow> fpl_element list \<Rightarrow> (ustr, int) dict \<Rightarrow> (ustr, int) dict" where
  "build_lookup U [] fpl_lookup = fpl_lookup"
| "build_lookup U (p # ps) fpl_lookup =
     (let full = normalize U (first_name p @ [32] @ second_name p);
          web = normalize U (web_name p);
          d1 = dict_set fpl_lookup full (fpl_code p);
          d2 = dict_set d1 web (fpl_code p);
          d3 = dict_set d2 (normalize U (second_name p)) (fpl_code p)
      in build_lookup U ps d3)"

section \<open>The reconcile loop\<close>

text \<open>\<open>a in b\<close> on strings: \<open>a\<close> occurs in \<open>b\<close> as a contiguous block.\<close>

fun str_in :: "ustr \<Rightarrow> ustr \<Rightarrow> bool" where
  "str_in a [] = (a = [])"
| "str_in a (y # ys) = (take (length a) (y # ys) = a \<or> str_in a ys)"

text \<open>
  Line 72, the test of the containment loop:
  \<open>fpl_name and (fpl_name in local_name or local_name in fpl_name)\<close>.
\<close>

definition overlaps :: "ustr \<Rightarrow> ustr \<Rightarrow> bool" where
  "overlaps local_name fpl_name =
     (fpl_name \<noteq> [] \<and> (str_in fpl_name local_name \<or> str_in local_name fpl_name))"

text \<open>
  Lines 70 to 74: the first item of \<open>fpl_lookup.items()\<close> that passes the test ends the
  loop; \<open>hit\<close> is its code.
\<close>

fun containment_hit :: "ustr \<Rightarrow> (ustr, int) dict \<Rightarrow> int option" where
  "containment_hit local_name [] = None"
| "containment_hit local_name ((fpl_name, code) # rest) =
     (if overlaps local_name fpl_name then Some code else containment_hit local_name rest)"

text \<open>
  The body of the loop (lines 60 to 85) takes one of four paths; \<open>resolve\<close> gives the code
  it stores and the path taken, or \<open>None\<close> when it stores nothing.
\<close>

datatype tier = Exact | Containment | Fuzzy

definition resolve :: "(ustr \<Rightarrow> ustr \<Rightarrow> pyfloat) \<Rightarrow> ustr \<Rightarrow> (ustr, int) dict \<Rightarrow> (int \<times> tier) option" where
  "resolve ratio local_name fpl_lookup =
     (case map_of fpl_lookup local_name of
        Some c \<Rightarrow> Some (c, Exact)
      | None \<Rightarrow>
          (case containment_hit local_name fpl_lookup of
             Some hit \<Rightarrow> Some (hit, Containment)
           | None \<Rightarrow>
               (case fst (best_fuzzy_match ratio local_name fpl_lookup min_score_086) of
                  Some c \<Rightarrow> Some (c, Fuzzy)
                | None \<Rightarrow> None)))"

record local_player =
  lp_id :: ustr
  lp_name :: ustr
  lp_photoCode :: "int option"

text \<open>
  Lines 57 to 85. The state is the list of players (each one rewritten where the script
  assigns \<open>player['photoCode']\<close>) and the two counters.
\<close>

fun reconcile_loop :: "ucd \<Rightarrow> (ustr \<Rightarrow> ustr \<Rightarrow> pyfloat) \<Rightarrow> (ustr, int) dict
    \<Rightarrow> local_player list \<Rightarrow> int \<times> int \<Rightarrow> local_player list \<times> int \<times> int" where
  "reconcile_loop U ratio fpl_lookup [] (matches, fuzzy_matches) = ([], matches, fuzzy_matches)"
| "reconcile_loop U ratio fpl_lookup (player # rest) (matches, fuzzy_matches) =
     (case resolve ratio (normalize U (lp_name player)) fpl_lookup of
        None \<Rightarrow>
          (case reconcile_loop U ratio fpl_lookup rest (matches, fuzzy_matches) of
             (ps, m, f) \<Rightarrow> (player # ps, m, f))
      | Some (c, t) \<Rightarrow>
          (case reconcile_loop U ratio fpl_lookup rest
                  (matches + 1, if t = Fuzzy then fuzzy_matches + 1 else fuzzy_matches) of
             (ps, m, f) \<Rightarrow> (player\<lparr>lp_photoCode := Some c\<rparr> # ps, m, f)))"

definition reconcile :: "ucd \<Rightarrow> (ustr \<Rightarrow> ustr \<Rightarrow> pyfloat) \<Rightarrow> (ustr, int) dict
    \<Rightarrow> local_player list \<Rightarrow> local_player list \<times> int \<times> int" where
  "reconcile U ratio fpl_lookup local_players =
     reconcile_loop U ratio fpl_lookup local_players (0, 0)"

section \<open>Propagation into the UI players\<close>

record ui_player =
  ui_basePlayerId :: "ustr option"
  ui_id :: "ustr option"
  ui_photoCode :: "int option"

text \<open>
  Line 98: the players with a truthy \<open>photoCode\<close> (present and not 0), keyed by \<open>id\<close>; a
  later player with the same \<open>id\<close> overwrites.
\<close>

fun core_map_of :: "local_player list \<Rightarrow> (ustr, int) dict \<Rightarrow> (ustr, int) dict" where
  "core_map_of [] core_map = core_map"
| "core_map_of (p # ps) core_map =
     (case lp_photoCode p of
        Some c \<Rightarrow> if c \<noteq> 0 then core_map_of ps (dict_set core_map (lp_id p) c)
                  else core_map_of ps core_map
      | None \<Rightarrow> core_map_of ps core_map)"

text \<open>
  Line 101: \<open>x or y\<close> is \<open>x\<close> when \<open>x\<close> is truthy (a string that is present and not empty),
  else \<open>y\<close>; \<open>split('-')[0]\<close> is what stands before the first hyphen.
\<close>

definition py_or :: "ustr option \<Rightarrow> ustr option \<Rightarrow> ustr option" where
  "py_or x y = (case x of Some s \<Rightarrow> if s \<noteq> [] then Some s else y | None \<Rightarrow> y)"

definition base_id :: "ui_player \<Rightarrow> ustr" where
  "base_id p =
     takeWhile (\<lambda>c. c \<noteq> 45)
       (case py_or (py_or (ui_basePlayerId p) (ui_id p)) (Some []) of Some s \<Rightarrow> s | None \<Rightarrow> [])"

fun sync_loop :: "(ustr, int) dict \<Rightarrow> ui_player list \<Rightarrow> int \<Rightarrow> ui_player list \<times> int" where
  "sync_loop core_map [] synced = ([], synced)"
| "sync_loop core_map (p # ps) synced =
     (case map_of core_map (base_id p) of
        Some c \<Rightarrow> (case sync_loop core_map ps (synced + 1) of
                    (qs, n) \<Rightarrow> (p\<lparr>ui_photoCode := Some c\<rparr> # qs, n))
      | None \<Rightarrow> (case sync_loop core_map ps synced of (qs, n) \<Rightarrow> (p # qs, n)))"

definition propagate :: "ui_player list \<Rightarrow> local_player list \<Rightarrow> ui_player list \<times> int" where
  "propagate ui_players local_players = sync_loop (core_map_of local_players []) ui_players 0"

section \<open>Auxiliary definitions for the statements\<close>

text \<open>
  What the reconcile loop does to one player, and whether it counts the player: the loop
  is a map of \<open>annotate\<close> and two counts (lemma \<open>reconcile_loop_eq\<close>).
\<close>

definition annotate :: "ucd \<Rightarrow> (ustr \<Rightarrow> ustr \<Rightarrow> pyfloat) \<Rightarrow> (ustr, int) dict
    \<Rightarrow> local_player \<Rightarrow> local_player" where
  "annotate U ratio fpl_lookup p =
     (case resolve ratio (normalize U (lp_name p)) fpl_lookup of
        None \<Rightarrow> p | Some (c, t) \<Rightarrow> p\<lparr>lp_photoCode := Some c\<rparr>)"

definition is_matched :: "ucd \<Rightarrow> (ustr \<Rightarrow> ustr \<Rightarrow> pyfloat) \<Rightarrow> (ustr, int) dict
    \<Rightarrow> local_player \<Rightarrow> bool" where
  "is_matched U ratio fpl_lookup p = (resolve ratio (normalize U (lp_name p)) fpl_lookup \<noteq> None)"

definition is_fuzzy :: "ucd \<Rightarrow> (ustr \<Rightarrow> ustr \<Rightarrow> pyfloat) \<Rightarrow> (ustr, int) dict
    \<Rightarrow> local_player \<Rightarrow> bool" where
  "is_fuzzy U ratio fpl_lookup p =
     (case resolve ratio (normalize U (lp_name p)) fpl_lookup of
        None \<Rightarrow> False | Some (c, t) \<Rightarrow> t = Fuzzy)"

definition sync_one :: "(ustr, int) dict \<Rightarrow> ui_player \<Rightarrow> ui_player" where
  "sync_one core_map p =
     (case map_of core_map (base_id p) of Some c \<Rightarrow> p\<lparr>ui_photoCode := Some c\<rparr> | None \<Rightarrow> p)"

subsection \<open>Concrete inputs\<close>

text \<open>
  For the examples, a ratio read from a table of scores, one for each candidate name
  (0 for a name that is not in the table).
\<close>

definition table_ratio :: "(ustr \<times> pyfloat) list \<Rightarrow> ustr \<Rightarrow> ustr \<Rightarrow> pyfloat" where
  "table_ratio tbl a b = (case map_of tbl b of Some r \<Rightarrow> r | None \<Rightarrow> 0)"

definition salah :: fpl_element where
  "salah = \<lparr>first_name = str ''Mohamed'', second_name = str ''Salah'',
            web_name = str ''Salah'', fpl_code = 101\<rparr>"

definition mo_salah :: local_player where
  "mo_salah = \<lparr>lp_id = str ''1'', lp_name = str ''Mo Salah'', lp_photoCode = None\<rparr>"

definition zed :: local_player where
  "zed = \<lparr>lp_id = str ''2'', lp_name = str ''Zed'', lp_photoCode = Some 7\<rparr>"

definition punct :: local_player where
  "punct = \<lparr>lp_id = str ''3'', lp_name = str ''?!'', lp_photoCode = None\<rparr>"

definition son_index :: "(ustr, int) dict" where
  "son_index = [(str ''kane'', 9), (str ''son'', 1), (str ''sonny'', 2)]"

definition tie_scores :: "(ustr \<times> pyfloat) list" where
  "tie_scores = [(str ''kane'', 1 / 2), (str ''son'', min_score_086), (str ''sonny'', min_score_086)]"

definition low_scores :: "(ustr \<times> pyfloat) list" where
  "low_scores = [(str ''kane'', 1 / 2), (str ''son'', 8599 / 10000), (str ''sonny'', 0)]"

definition variant_a :: ui_player where
  "variant_a = \<lparr>ui_basePlayerId = Some (str ''42-variantA''), ui_id = Some (str ''7''),
                ui_photoCode = None\<rparr>"

definition plain_card :: ui_player where
  "plain_card = \<lparr>ui_basePlayerId = None, ui_id = Some (str ''42-b''), ui_photoCode = None\<rparr>"

text \<open>
  For the statements about propagation: a local player has a truthy photoCode when it is
  present and not 0; \<open>core_photo\<close> is the photoCode of the last local player with the
  given id and a truthy photoCode; \<open>before_hyphen\<close> is \<open>split('-')[0]\<close>.
\<close>

definition has_photo :: "local_player \<Rightarrow> bool" where
  "has_photo p = (case lp_photoCode p of Some c \<Rightarrow> c \<noteq> 0 | None \<Rightarrow> False)"

definition core_photo :: "local_player list \<Rightarrow> ustr \<Rightarrow> int option" where
  "core_photo local_players k =
     (case find (\<lambda>p. lp_id p = k \<and> has_photo p) (rev local_players) of
        Some p \<Rightarrow> lp_photoCode p | None \<Rightarrow> None)"

definition before_hyphen :: "ustr \<Rightarrow> ustr" where
  "before_hyphen s = takeWhile (\<lambda>c. c \<noteq> 45) s"

definition empty_base :: ui_player where
  "empty_base = \<lparr>ui_basePlayerId = Some [], ui_id = Some (str ''7-x''), ui_photoCode = None\<rparr>"

definition no_ids :: ui_player where
  "no_ids = \<lparr>ui_basePlayerId = None, ui_id = None, ui_photoCode = Some 5\<rparr>"

definition seven :: local_player where
  "seven = \<lparr>lp_id = str ''7'', lp_name = str ''Seven'', lp_photoCode = Some 101\<rparr>"

definition seven_old :: local_player where
  "seven_old = \<lparr>lp_id = str ''7'', lp_name = str ''Old Seven'', lp_photoCode = Some 55\<rparr>"

definition seven_zero :: local_player where
  "seven_zero = \<lparr>lp_id = str ''7'', lp_name = str ''Zero Seven'', lp_photoCode = Some 0\<rparr>"

text \<open>
  Candidate \<open>i\<close> is the first of the candidates with the highest score: no candidate
  scores more, and every earlier one scores less.
\<close>

definition first_best :: "(ustr \<Rightarrow> ustr \<Rightarrow> pyfloat) \<Rightarrow> ustr \<Rightarrow> (ustr, int) dict \<Rightarrow> nat \<Rightarrow> bool" where
  "first_best ratio local_name candidates i =
     (i < length candidates \<and>
      (\<forall>j<length candidates. similarity ratio local_name (fst (candidates ! j))
          \<le> similarity ratio local_name (fst (candidates ! i))) \<and>
      (\<forall>j<i. similarity ratio local_name (fst (candidates ! j))
          < similarity ratio local_name (fst (candidates ! i))))"

section \<open>Basic facts\<close>

lemmas ucd_basic_eval =
  normalize_def str_def ucd_basic_def is_word_def lower_cp_def decomp_cp_def alnum_cp_def
  space_cp_def strip_def

text \<open>\<open>str_in\<close> is the substring relation.\<close>

lemma str_in_iff: "str_in a b \<longleftrightarrow> (\<exists>p s. b = p @ a @ s)"
proof (induction b)
  case Nil
  show ?case by auto
next
  case (Cons y ys)
  have "take (length a) (y # ys) = a \<longleftrightarrow> (\<exists>s. y # ys = a @ s)"
    by (metis append_eq_conv_conj append_take_drop_id)
  moreover have "(\<exists>p s. y # ys = p @ a @ s) \<longleftrightarrow> (\<exists>s. y # ys = a @ s) \<or> (\<exists>p s. ys = p @ a @ s)"
  proof
    assume "\<exists>p s. y # ys = p @ a @ s"
    then obtain p s where ps: "y # ys = p @ a @ s" by blast
    show "(\<exists>s. y # ys = a @ s) \<or> (\<exists>p s. ys = p @ a @ s)"
    proof (cases p)
      case Nil
      with ps show ?thesis by auto
    next
      case (Cons q qs)
      with ps have "ys = qs @ a @ s" by simp
      then show ?thesis by blast
    qed
  next
    assume "(\<exists>s. y # ys = a @ s) \<or> (\<exists>p s. ys = p @ a @ s)"
    then show "\<exists>p s. y # ys = p @ a @ s"
    proof
      assume "\<exists>s. y # ys = a @ s"
      then show ?thesis by (metis append_Nil)
    next
      assume "\<exists>p s. ys = p @ a @ s"
      then obtain p s where "ys = p @ a @ s" by blast
      then have "y # ys = (y # p) @ a @ s" by simp
      then show ?thesis by blast
    qed
  qed
  ultimately show ?case using Cons.IH by simp
qed

lemma str_in_empty: "str_in [] k"
  by (cases k) simp_all

text \<open>The index never holds a key twice.\<close>

lemma dict_set_distinct: "distinct (map fst d) \<Longrightarrow> distinct (map fst (dict_set d k v))"
  by (simp add: dict_set_def distinct_update)

lemma build_lookup_distinct:
  "distinct (map fst d) \<Longrightarrow> distinct (map fst (build_lookup U ps d))"
  by (induction ps arbitrary: d) (simp_all add: Let_def dict_set_distinct)

text \<open>
  What \<open>normalize\<close> does ensure, for any tables: a character of the result is a space
  or passed the \<open>[^\w\s]\<close> filter.
\<close>

lemma collapse_ws_chars: "set (collapse_ws U s) \<subseteq> insert 32 (set s)"
proof (induction U s rule: collapse_ws.induct)
  case (1 U)
  show ?case by simp
next
  case (2 U c cs)
  show ?case
  proof (cases "isspace U c")
    case True
    have "set (dropWhile (isspace U) cs) \<subseteq> set cs"
      by (rule set_dropWhileD [THEN subsetI])
    with 2(1) [OF True] True show ?thesis by auto
  next
    case False
    with 2(2) [OF False] show ?thesis by auto
  qed
qed

lemma strip_chars: "set (strip U s) \<subseteq> set s"
proof -
  have "set (dropWhile (isspace U) (rev (dropWhile (isspace U) s))) \<subseteq> set (rev (dropWhile (isspace U) s))"
    by (rule set_dropWhileD [THEN subsetI])
  moreover have "set (dropWhile (isspace U) s) \<subseteq> set s"
    by (rule set_dropWhileD [THEN subsetI])
  ultimately show ?thesis by (auto simp: strip_def)
qed

lemma normalize_chars:
  assumes "c \<in> set (normalize U name)"
  shows "c = 32 \<or> is_word U c \<or> isspace U c"
proof (cases "name = []")
  case True
  with assms show ?thesis by (simp add: normalize_def)
next
  case False
  let ?n3 = "filter (\<lambda>c. combining U c = 0)
               (nfkd U (map (\<lambda>c. if c = 45 then 32 else c) (py_lower U name)))"
  let ?n4 = "filter (\<lambda>c. is_word U c \<or> isspace U c) ?n3"
  have "c \<in> set (strip U (collapse_ws U ?n4))"
    using assms False by (simp add: normalize_def Let_def)
  then have "c \<in> insert 32 (set ?n4)"
    using strip_chars [of U "collapse_ws U ?n4"] collapse_ws_chars [of U ?n4] by blast
  then show ?thesis by auto
qed

section \<open>The containment loop\<close>

lemma containment_hit_first:
  assumes "i < length d" and "overlaps n (fst (d ! i))"
    and "\<forall>j<i. \<not> overlaps n (fst (d ! j))"
  shows "containment_hit n d = Some (snd (d ! i))"
  using assms
proof (induction d arbitrary: i)
  case Nil
  then show ?case by simp
next
  case (Cons kc d)
  obtain k c where kc: "kc = (k, c)" by (cases kc)
  show ?case
  proof (cases i)
    case 0
    with Cons.prems kc show ?thesis by simp
  next
    case (Suc i')
    with Cons.prems have "\<not> overlaps n k" using kc by force
    moreover have "containment_hit n d = Some (snd (d ! i'))"
    proof (rule Cons.IH)
      show "i' < length d" using Cons.prems Suc by simp
      show "overlaps n (fst (d ! i'))" using Cons.prems Suc by simp
      show "\<forall>j<i'. \<not> overlaps n (fst (d ! j))"
      proof (intro allI impI)
        fix j assume "j < i'"
        then have "Suc j < i" using Suc by simp
        with Cons.prems(3) have "\<not> overlaps n (fst ((kc # d) ! Suc j))" by blast
        then show "\<not> overlaps n (fst (d ! j))" by simp
      qed
    qed
    ultimately show ?thesis using kc Suc by simp
  qed
qed

lemma containment_hit_none:
  "(\<forall>kc\<in>set d. \<not> overlaps n (fst kc)) \<Longrightarrow> containment_hit n d = None"
  by (induction d) auto

lemma containment_hit_empty:
  "containment_hit [] d = map_option snd (find (\<lambda>kc. fst kc \<noteq> []) d)"
proof (induction d)
  case Nil
  show ?case by simp
next
  case (Cons kc d)
  obtain k c where kc: "kc = (k, c)" by (cases kc)
  show ?case using Cons.IH kc by (simp add: overlaps_def str_in_empty)
qed

section \<open>The fuzzy loop\<close>

lemma best_loop_keep:
  "(\<forall>kc\<in>set cs. similarity ratio n (fst kc) \<le> bs) \<Longrightarrow>
     best_loop ratio n cs (bc, bs) = (bc, bs)"
  by (induction cs) auto

lemma best_loop_score_cases:
  "snd (best_loop ratio n cs (bc, bs)) = bs \<or>
   snd (best_loop ratio n cs (bc, bs)) \<in> (\<lambda>kc. similarity ratio n (fst kc)) ` set cs"
proof (induction cs arbitrary: bc bs)
  case Nil
  show ?case by simp
next
  case (Cons kc cs)
  obtain k c where kc: "kc = (k, c)" by (cases kc)
  show ?case
  proof (cases "similarity ratio n k > bs")
    case True
    then show ?thesis
      using Cons.IH [of "Some c" "similarity ratio n k"] kc by auto
  next
    case False
    then show ?thesis
      using Cons.IH [of bc bs] kc by auto
  qed
qed

lemma best_loop_first_max:
  assumes "i < length cs"
    and "bs < similarity ratio n (fst (cs ! i))"
    and "\<forall>j<length cs. similarity ratio n (fst (cs ! j)) \<le> similarity ratio n (fst (cs ! i))"
    and "\<forall>j<i. similarity ratio n (fst (cs ! j)) < similarity ratio n (fst (cs ! i))"
  shows "best_loop ratio n cs (bc, bs) = (Some (snd (cs ! i)), similarity ratio n (fst (cs ! i)))"
  using assms
proof (induction cs arbitrary: i bc bs)
  case Nil
  then show ?case by simp
next
  case (Cons kc cs)
  obtain k c where kc: "kc = (k, c)" by (cases kc)
  show ?case
  proof (cases i)
    case 0
    have "\<forall>x\<in>set cs. similarity ratio n (fst x) \<le> similarity ratio n k"
    proof
      fix x assume "x \<in> set cs"
      then obtain j where "j < length cs" "cs ! j = x" by (auto simp: in_set_conv_nth)
      then show "similarity ratio n (fst x) \<le> similarity ratio n k"
        using Cons.prems(3) [rule_format, of "Suc j"] 0 kc by simp
    qed
    then have "best_loop ratio n cs (Some c, similarity ratio n k) = (Some c, similarity ratio n k)"
      by (rule best_loop_keep)
    then show ?thesis using 0 kc Cons.prems(2) by simp
  next
    case (Suc i')
    let ?si = "similarity ratio n (fst (cs ! i'))"
    have lt: "similarity ratio n k < ?si"
      using Cons.prems(4) [rule_format, of 0] Suc kc by simp
    have len: "i' < length cs" using Cons.prems(1) Suc by simp
    have mx: "\<forall>j<length cs. similarity ratio n (fst (cs ! j)) \<le> ?si"
    proof (intro allI impI)
      fix j assume "j < length cs"
      then show "similarity ratio n (fst (cs ! j)) \<le> ?si"
        using Cons.prems(3) [rule_format, of "Suc j"] Suc by simp
    qed
    have fst_max: "\<forall>j<i'. similarity ratio n (fst (cs ! j)) < ?si"
    proof (intro allI impI)
      fix j assume "j < i'"
      then show "similarity ratio n (fst (cs ! j)) < ?si"
        using Cons.prems(4) [rule_format, of "Suc j"] Suc by simp
    qed
    have bs: "bs < ?si" using Cons.prems(2) Suc by simp
    show ?thesis
    proof (cases "similarity ratio n k > bs")
      case True
      have "best_loop ratio n cs (Some c, similarity ratio n k) = (Some (snd (cs ! i')), ?si)"
        using len lt mx fst_max by (rule Cons.IH)
      then show ?thesis using True kc Suc by simp
    next
      case False
      have "best_loop ratio n cs (bc, bs) = (Some (snd (cs ! i')), ?si)"
        using len bs mx fst_max by (rule Cons.IH)
      then show ?thesis using False kc Suc by simp
    qed
  qed
qed

lemma min_score_086_pos: "0 < min_score_086"
  by (simp add: min_score_086_def)

lemma best_fuzzy_match_first_best:
  assumes "first_best ratio n cs i"
    and "min_score_086 \<le> similarity ratio n (fst (cs ! i))"
  shows "best_fuzzy_match ratio n cs min_score_086
           = (Some (snd (cs ! i)), similarity ratio n (fst (cs ! i)))"
proof -
  let ?s = "similarity ratio n (fst (cs ! i))"
  have pos: "0 < ?s" using assms(2) min_score_086_pos by linarith
  have "best_loop ratio n cs (None, 0) = (Some (snd (cs ! i)), ?s)"
    using assms(1) pos unfolding first_best_def by (intro best_loop_first_max) blast+
  then show ?thesis using assms(2) by (simp add: best_fuzzy_match_def)
qed

lemma best_fuzzy_match_below:
  assumes "\<forall>kc\<in>set cs. similarity ratio n (fst kc) < min_score_086"
  shows "fst (best_fuzzy_match ratio n cs min_score_086) = None"
proof -
  obtain bc bs where r: "best_loop ratio n cs (None, 0) = (bc, bs)"
    by (cases "best_loop ratio n cs (None, 0)")
  have "bs = 0 \<or> bs \<in> (\<lambda>kc. similarity ratio n (fst kc)) ` set cs"
    using best_loop_score_cases [of ratio n cs None 0] r by simp
  then have "bs < min_score_086" using assms min_score_086_pos by auto
  then show ?thesis using r by (simp add: best_fuzzy_match_def)
qed

text \<open>When the first two tiers miss, the loop body stores what the fuzzy match returns.\<close>

lemma resolve_fuzzy_tier:
  "map_of fpl_lookup n = None \<Longrightarrow> containment_hit n fpl_lookup = None \<Longrightarrow>
   resolve ratio n fpl_lookup =
     map_option (\<lambda>c. (c, Fuzzy)) (fst (best_fuzzy_match ratio n fpl_lookup min_score_086))"
  by (simp add: resolve_def split: option.splits)

section \<open>The loops as maps and counts\<close>

lemma reconcile_loop_eq:
  "reconcile_loop U ratio d ps (m, f) =
     (map (annotate U ratio d) ps,
      m + int (length (filter (is_matched U ratio d) ps)),
      f + int (length (filter (is_fuzzy U ratio d) ps)))"
proof (induction ps arbitrary: m f)
  case Nil
  show ?case by simp
next
  case (Cons p ps)
  show ?case
  proof (cases "resolve ratio (normalize U (lp_name p)) d")
    case None
    then show ?thesis
      by (simp add: Cons.IH annotate_def is_matched_def is_fuzzy_def)
  next
    case (Some ct)
    obtain c t where ct: "ct = (c, t)" by (cases ct)
    show ?thesis
      using Some ct by (simp add: Cons.IH annotate_def is_matched_def is_fuzzy_def)
  qed
qed

lemma is_fuzzy_matched: "is_fuzzy U ratio d p \<Longrightarrow> is_matched U ratio d p"
  by (auto simp: is_fuzzy_def is_matched_def split: option.splits)

lemma fuzzy_le_matched:
  "length (filter (is_fuzzy U ratio d) ps) \<le> length (filter (is_matched U ratio d) ps)"
proof (induction ps)
  case Nil
  show ?case by simp
next
  case (Cons p ps)
  then show ?case using is_fuzzy_matched [of U ratio d p] by auto
qed

text \<open>One player moves the counters by (0, 0), (1, 0) or (1, 1).\<close>

lemma reconcile_loop_step:
  "reconcile_loop U ratio d [p] (m, f) = (ps', m', f') \<Longrightarrow>
     (m' = m \<and> f' = f) \<or> (m' = m + 1 \<and> (f' = f \<or> f' = f + 1))"
  by (auto split: option.splits if_splits)

lemma sync_loop_eq:
  "sync_loop core_map ps synced =
     (map (sync_one core_map) ps,
      synced + int (length (filter (\<lambda>p. map_of core_map (base_id p) \<noteq> None) ps)))"
  by (induction ps arbitrary: synced) (auto simp: sync_one_def split: option.splits)

text \<open>
  The dictionary of line 98, looked up at a key, is \<open>core_photo\<close>: a later player with
  the same id overwrites, and players without a truthy photoCode are left out.
\<close>

lemma find_app:
  "find P (xs @ ys) = (case find P xs of Some x \<Rightarrow> Some x | None \<Rightarrow> find P ys)"
  by (induction xs) simp_all

lemma core_map_of_lookup:
  "map_of (core_map_of ps d) k =
     (case find (\<lambda>p. lp_id p = k \<and> has_photo p) (rev ps) of
        Some p \<Rightarrow> lp_photoCode p | None \<Rightarrow> map_of d k)"
proof (induction ps arbitrary: d)
  case Nil
  show ?case by simp
next
  case (Cons p ps)
  let ?P = "\<lambda>p. lp_id p = k \<and> has_photo p"
  show ?case
  proof (cases "has_photo p")
    case False
    then have skip: "core_map_of (p # ps) d = core_map_of ps d"
      by (simp add: has_photo_def split: option.splits)
    have "find ?P (rev (p # ps)) = find ?P (rev ps)"
      using False by (simp add: find_app split: option.splits)
    with skip show ?thesis by (simp only: Cons.IH)
  next
    case True
    then obtain c where c: "lp_photoCode p = Some c" "c \<noteq> 0"
      by (auto simp: has_photo_def split: option.splits)
    then have step: "core_map_of (p # ps) d = core_map_of ps (dict_set d (lp_id p) c)"
      by simp
    have upd: "map_of (dict_set d (lp_id p) c) k = (if lp_id p = k then Some c else map_of d k)"
      by (simp add: dict_set_def update_conv')
    have fa: "find ?P (rev (p # ps)) =
        (case find ?P (rev ps) of Some q \<Rightarrow> Some q
         | None \<Rightarrow> if lp_id p = k then Some p else None)"
      using True by (simp add: find_app split: option.splits)
    show ?thesis
      unfolding step fa Cons.IH [of "dict_set d (lp_id p) c"] upd
      using c by (simp split: option.splits)
  qed
qed

lemma core_map_of_core_photo: "map_of (core_map_of ps []) k = core_photo ps k"
  by (simp add: core_map_of_lookup core_photo_def split: option.splits)

lemma propagate_eq:
  "propagate ui_players local_players =
     (map (\<lambda>q. case core_photo local_players (base_id q) of
                 Some c \<Rightarrow> q\<lparr>ui_photoCode := Some c\<rparr> | None \<Rightarrow> q) ui_players,
      int (length (filter (\<lambda>q. core_photo local_players (base_id q) \<noteq> None) ui_players)))"
proof -
  have "sync_one (core_map_of local_players []) =
          (\<lambda>q. case core_photo local_players (base_id q) of
                 Some c \<Rightarrow> q\<lparr>ui_photoCode := Some c\<rparr> | None \<Rightarrow> q)"
    by (rule ext) (simp add: sync_one_def core_map_of_core_photo)
  then show ?thesis
    by (simp add: propagate_def sync_loop_eq core_map_of_core_photo)
qed

section \<open>The worked inputs\<close>

lemma salah_index:
  "build_lookup ucd_basic [salah] [] = [(str ''mohamed salah'', 101), (str ''salah'', 101)]"
  by (simp add: salah_def dict_set_def ucd_basic_eval Let_def)

lemma mo_salah_name: "normalize ucd_basic (lp_name mo_salah) = str ''mo salah''"
  by (simp add: mo_salah_def ucd_basic_eval)

lemma zed_name: "normalize ucd_basic (lp_name zed) = str ''zed''"
  by (simp add: zed_def ucd_basic_eval)

lemma mo_salah_resolved:
  "resolve ratio (str ''mo salah'') [(str ''mohamed salah'', 101), (str ''salah'', 101)]
     = Some (101, Containment)"
  by (simp add: resolve_def overlaps_def str_def)

lemma zed_unresolved:
  "resolve (table_ratio []) (str ''zed'') [(str ''mohamed salah'', 101), (str ''salah'', 101)] = None"
  by (simp add: resolve_def overlaps_def best_fuzzy_match_def similarity_def table_ratio_def
        min_score_086_def str_def)

lemma reconcile_mo_step:
  "reconcile_loop ucd_basic (table_ratio []) (build_lookup ucd_basic [salah] []) [mo_salah] (5, 2)
     = ([mo_salah\<lparr>lp_photoCode := Some 101\<rparr>], 6, 2)"
  unfolding salah_index by (simp add: mo_salah_name mo_salah_resolved)

lemma reconcile_mo_zed:
  "reconcile ucd_basic (table_ratio []) (build_lookup ucd_basic [salah] []) [mo_salah, zed]
     = ([mo_salah\<lparr>lp_photoCode := Some 101\<rparr>, zed], 1, 0)"
  unfolding salah_index reconcile_def
  by (simp add: mo_salah_name zed_name zed_unresolved mo_salah_resolved)

section \<open>The claims\<close>

text \<open>
  C1. A local name that is a key of the index gets that key's code through the exact
  tier, whatever \<open>ratio\<close> says about the other keys and whichever keys contain it: the
  containment loop and the fuzzy match play no part in the result.
\<close>

theorem exact_tier_precedence:
  assumes "(local_name, c) \<in> set fpl_lookup" and "distinct (map fst fpl_lookup)"
  shows "resolve ratio local_name fpl_lookup = Some (c, Exact)"
proof -
  have "map_of fpl_lookup local_name = Some c"
    using assms by simp
  then show ?thesis by (simp add: resolve_def)
qed

text \<open>
  At the index kane, son, sonny and the name sonny: the earlier key son is contained in
  the name and has ratio 1, and still the code of sonny is stored.
\<close>

theorem exact_tier_precedence_witness:
  "(str ''sonny'', 2) \<in> set son_index \<and> distinct (map fst son_index) \<and>
   resolve (table_ratio [(str ''son'', 1)]) (str ''sonny'') son_index = Some (2, Exact)"
  using exact_tier_precedence
    [of "str ''sonny''" 2 son_index "table_ratio [(str ''son'', 1)]"]
  by (simp add: son_index_def str_def)

text \<open>
  C2. For a local name that is not a key, the containment tier returns the code of the
  first key, in the order of the index, that is non-empty and contains the name or is
  contained in it; later keys that pass the same test do not matter, whatever their
  length or their ratio.
\<close>

theorem containment_first_match:
  assumes "local_name \<notin> fst ` set fpl_lookup"
    and "i < length fpl_lookup"
    and "overlaps local_name (fst (fpl_lookup ! i))"
    and "\<forall>j<i. \<not> overlaps local_name (fst (fpl_lookup ! j))"
  shows "resolve ratio local_name fpl_lookup = Some (snd (fpl_lookup ! i), Containment)"
proof -
  have "map_of fpl_lookup local_name = None"
    using assms(1) by (simp add: map_of_eq_None_iff)
  moreover have "containment_hit local_name fpl_lookup = Some (snd (fpl_lookup ! i))"
    using assms(2-4) by (rule containment_hit_first)
  ultimately show ?thesis by (simp add: resolve_def)
qed

text \<open>
  The name sonny boy contains both son and sonny; son comes first and wins, though sonny
  is longer and has ratio 1.
\<close>

theorem containment_first_match_witness:
  "str ''sonny boy'' \<notin> fst ` set son_index \<and> 1 < length son_index \<and>
   overlaps (str ''sonny boy'') (fst (son_index ! 1)) \<and>
   overlaps (str ''sonny boy'') (fst (son_index ! 2)) \<and>
   \<not> overlaps (str ''sonny boy'') (fst (son_index ! 0)) \<and>
   resolve (table_ratio [(str ''sonny'', 1)]) (str ''sonny boy'') son_index
     = Some (1, Containment)"
  using containment_first_match
    [of "str ''sonny boy''" son_index 1 "table_ratio [(str ''sonny'', 1)]"]
  by (simp add: son_index_def str_def overlaps_def)

text \<open>
  C3. In \<open>best_fuzzy_match\<close> with the threshold 0.86: when the first of the best-scoring
  candidates scores exactly the threshold, its code is returned; more generally, when
  it scores at least the threshold, its code and score are returned, so that among
  candidates of equal highest score the earliest wins; and when every candidate scores
  below the threshold, no code is returned.
\<close>

theorem fuzzy_threshold_and_ties:
  "(first_best ratio local_name candidates i \<and>
    similarity ratio local_name (fst (candidates ! i)) = min_score_086
    \<longrightarrow> best_fuzzy_match ratio local_name candidates min_score_086
          = (Some (snd (candidates ! i)), min_score_086))
   \<and>
   (first_best ratio local_name candidates i \<and>
    similarity ratio local_name (fst (candidates ! i)) \<ge> min_score_086
    \<longrightarrow> best_fuzzy_match ratio local_name candidates min_score_086
          = (Some (snd (candidates ! i)), similarity ratio local_name (fst (candidates ! i))))
   \<and>
   ((\<forall>kc\<in>set candidates. similarity ratio local_name (fst kc) < min_score_086)
    \<longrightarrow> fst (best_fuzzy_match ratio local_name candidates min_score_086) = None)"
proof (intro conjI impI)
  assume a: "first_best ratio local_name candidates i \<and>
    similarity ratio local_name (fst (candidates ! i)) = min_score_086"
  then have "best_fuzzy_match ratio local_name candidates min_score_086
      = (Some (snd (candidates ! i)), similarity ratio local_name (fst (candidates ! i)))"
    by (intro best_fuzzy_match_first_best) simp_all
  with a show "best_fuzzy_match ratio local_name candidates min_score_086
      = (Some (snd (candidates ! i)), min_score_086)"
    by simp
next
  assume "first_best ratio local_name candidates i \<and>
    similarity ratio local_name (fst (candidates ! i)) \<ge> min_score_086"
  then show "best_fuzzy_match ratio local_name candidates min_score_086
      = (Some (snd (candidates ! i)), similarity ratio local_name (fst (candidates ! i)))"
    by (intro best_fuzzy_match_first_best) simp_all
next
  assume "\<forall>kc\<in>set candidates. similarity ratio local_name (fst kc) < min_score_086"
  then show "fst (best_fuzzy_match ratio local_name candidates min_score_086) = None"
    by (rule best_fuzzy_match_below)
qed

text \<open>
  With son and sonny both scoring exactly the threshold, son (the earlier) is returned;
  with a best score of 0.8599 nothing is.
\<close>

theorem fuzzy_threshold_and_ties_witness:
  "first_best (table_ratio tie_scores) (str ''sun'') son_index 1 \<and>
   similarity (table_ratio tie_scores) (str ''sun'') (fst (son_index ! 1)) = min_score_086 \<and>
   similarity (table_ratio tie_scores) (str ''sun'') (fst (son_index ! 2)) = min_score_086 \<and>
   best_fuzzy_match (table_ratio tie_scores) (str ''sun'') son_index min_score_086
     = (Some 1, min_score_086) \<and>
   similarity (table_ratio low_scores) (str ''sun'') (str ''kane'') < min_score_086 \<and>
   similarity (table_ratio low_scores) (str ''sun'') (str ''son'') < min_score_086 \<and>
   similarity (table_ratio low_scores) (str ''sun'') (str ''sonny'') < min_score_086 \<and>
   fst (best_fuzzy_match (table_ratio low_scores) (str ''sun'') son_index min_score_086) = None"
  using fuzzy_threshold_and_ties
      [where i = 1 and candidates = son_index and ratio = "table_ratio tie_scores"
         and local_name = "str ''sun''"]
    fuzzy_threshold_and_ties
      [where i = 1 and candidates = son_index and ratio = "table_ratio low_scores"
         and local_name = "str ''sun''"]
  by (simp add: first_best_def son_index_def tie_scores_def low_scores_def table_ratio_def
        similarity_def str_def min_score_086_def All_less_Suc)

text \<open>
  C4, as stated, has the match come from the exact tier. It does not: the normalized
  local name, mo salah, is not a key of the index built from the one external record
  (the test of line 64 fails), so the exact tier is not the one that stores the code.
\<close>

theorem salah_exact_tier_counterexample:
  "map_of (build_lookup ucd_basic [salah] []) (normalize ucd_basic (lp_name mo_salah)) = None \<and>
   resolve (table_ratio []) (normalize ucd_basic (lp_name mo_salah))
      (build_lookup ucd_basic [salah] []) \<noteq> Some (101, Exact)"
  unfolding salah_index mo_salah_name by (simp add: resolve_def overlaps_def str_def)

text \<open>
  C4, amended. Given the local player 1 named Mo Salah and the external record 101
  (Mohamed, Salah, web name Salah), the loop stores 101 as the player's photoCode through
  the containment tier (the key salah, from the web name and the last name, is a
  substring of mo salah), and the counters end at matched 1, fuzzy 0.
\<close>

theorem salah_end_to_end:
  "resolve ratio (normalize ucd_basic (lp_name mo_salah)) (build_lookup ucd_basic [salah] [])
     = Some (101, Containment) \<and>
   reconcile ucd_basic ratio (build_lookup ucd_basic [salah] []) [mo_salah]
     = ([\<lparr>lp_id = str ''1'', lp_name = str ''Mo Salah'', lp_photoCode = Some 101\<rparr>], 1, 0)"
proof -
  have "reconcile ucd_basic ratio (build_lookup ucd_basic [salah] []) [mo_salah]
      = ([mo_salah\<lparr>lp_photoCode := Some 101\<rparr>], 1, 0)"
    unfolding salah_index reconcile_def by (simp add: mo_salah_name mo_salah_resolved)
  then show ?thesis
    unfolding salah_index mo_salah_name by (simp add: mo_salah_resolved mo_salah_def)
qed

text \<open>
  C5 says that the output of \<open>normalize\<close> holds no underscore and no punctuation. The
  code keeps the underscore, which the class \<open>\w\<close> contains: the name \<open>a_b\<close> comes back
  as it is.
\<close>

theorem normalize_keeps_underscore:
  "normalize ucd_basic (str ''a_b'') = str ''a_b'' \<and>
   of_char CHR ''_'' \<in> set (normalize ucd_basic (str ''a_b''))"
  by (simp add: ucd_basic_eval)

text \<open>
  C6 says that \<open>normalize\<close> is idempotent. The code lowercases before it decomposes, so
  the letters that a compatibility decomposition brings in stay as they are: the one
  character U+2122 gives TM, and TM gives tm.
\<close>

theorem normalize_not_idempotent:
  "normalize ucd_basic [8482] = str ''TM'' \<and>
   normalize ucd_basic (normalize ucd_basic [8482]) = str ''tm'' \<and>
   normalize ucd_basic (normalize ucd_basic [8482]) \<noteq> normalize ucd_basic [8482]"
  by (simp add: ucd_basic_eval)

text \<open>
  C7. After the loop the list has the same length, a player that no tier matches is
  the same record as before (its photoCode is neither set nor overwritten), and the
  matched counter is the number of players that some tier matches, so that the others
  are not counted.
\<close>

theorem unmatched_players_unchanged:
  assumes "reconcile U ratio fpl_lookup local_players = (ps', matches, fuzzy_matches)"
  shows "length ps' = length local_players \<and>
         (\<forall>i<length local_players.
            resolve ratio (normalize U (lp_name (local_players ! i))) fpl_lookup = None
            \<longrightarrow> ps' ! i = local_players ! i) \<and>
         matches = int (length (filter
            (\<lambda>p. resolve ratio (normalize U (lp_name p)) fpl_lookup \<noteq> None) local_players))"
proof -
  have eq: "ps' = map (annotate U ratio fpl_lookup) local_players"
    and m: "matches = int (length (filter (is_matched U ratio fpl_lookup) local_players))"
    using assms by (simp_all add: reconcile_def reconcile_loop_eq)
  have "is_matched U ratio fpl_lookup =
          (\<lambda>p. resolve ratio (normalize U (lp_name p)) fpl_lookup \<noteq> None)"
    by (rule ext) (simp add: is_matched_def)
  with m have m': "matches = int (length (filter
            (\<lambda>p. resolve ratio (normalize U (lp_name p)) fpl_lookup \<noteq> None) local_players))"
    by simp
  show ?thesis using eq m' by (simp add: annotate_def)
qed

text \<open>
  Zed, whose photoCode was 7 before the run, matches nothing in the index of the one
  record: the record is unchanged and only Mo Salah is counted.
\<close>

theorem unmatched_players_unchanged_witness:
  "reconcile ucd_basic (table_ratio []) (build_lookup ucd_basic [salah] []) [mo_salah, zed]
     = ([mo_salah\<lparr>lp_photoCode := Some 101\<rparr>, zed], 1, 0) \<and>
   resolve (table_ratio []) (normalize ucd_basic (lp_name ([mo_salah, zed] ! 1)))
     (build_lookup ucd_basic [salah] []) = None \<and>
   [mo_salah\<lparr>lp_photoCode := Some 101\<rparr>, zed] ! 1 = [mo_salah, zed] ! 1 \<and>
   lp_photoCode ([mo_salah\<lparr>lp_photoCode := Some 101\<rparr>, zed] ! 1) = Some 7"
proof -
  let ?d = "build_lookup ucd_basic [salah] []"
  have u: "resolve (table_ratio []) (normalize ucd_basic (lp_name ([mo_salah, zed] ! 1))) ?d = None"
    unfolding salah_index by (simp add: zed_name zed_unresolved)
  have len: "(1::nat) < length [mo_salah, zed]" by simp
  have keep: "\<forall>i<length [mo_salah, zed].
      resolve (table_ratio []) (normalize ucd_basic (lp_name ([mo_salah, zed] ! i))) ?d = None
      \<longrightarrow> [mo_salah\<lparr>lp_photoCode := Some 101\<rparr>, zed] ! i = [mo_salah, zed] ! i"
    using unmatched_players_unchanged [OF reconcile_mo_zed] by blast
  have same: "[mo_salah\<lparr>lp_photoCode := Some 101\<rparr>, zed] ! 1 = [mo_salah, zed] ! 1"
    using keep len u by blast
  have "lp_photoCode ([mo_salah\<lparr>lp_photoCode := Some 101\<rparr>, zed] ! 1) = Some 7"
    by (simp add: zed_def)
  then show ?thesis using reconcile_mo_zed u same by blast
qed

text \<open>
  C8, as stated, has every derived record with a basePlayerId join by it. Python's
  \<open>or\<close> passes over a basePlayerId that is present but empty: the record with
  basePlayerId \<open>""\<close> and id 7-x joins by 7, not by the (empty) basePlayerId, and gets
  the photoCode of the local player 7.
\<close>

theorem empty_base_id_counterexample:
  "ui_basePlayerId empty_base = Some [] \<and>
   base_id empty_base = str ''7'' \<and>
   base_id empty_base \<noteq> before_hyphen [] \<and>
   propagate [empty_base] [seven] = ([empty_base\<lparr>ui_photoCode := Some 101\<rparr>], 1)"
  by (simp add: empty_base_def seven_def base_id_def py_or_def before_hyphen_def
        propagate_def dict_set_def str_def)

text \<open>
  C8, amended. The join key of a derived record is its basePlayerId when that is present
  and not empty, else its own id (the empty string when there is none), cut before the
  first hyphen. Propagation gives the record the photoCode of the last local player
  that has this key as id and a truthy photoCode, and counts the record as synced,
  exactly when there is such a player; other records are unchanged. In particular, with
  the local player 1 holding photoCode 101, the derived record with basePlayerId
  1-variantA gets photoCode 101 and the synced count is 1.
\<close>

theorem propagation_join:
  "(ui_basePlayerId p = Some b \<and> b \<noteq> [] \<longrightarrow> base_id p = before_hyphen b) \<and>
   ((ui_basePlayerId p = None \<or> ui_basePlayerId p = Some []) \<and> ui_id p = Some i
      \<longrightarrow> base_id p = before_hyphen i) \<and>
   ((ui_basePlayerId p = None \<or> ui_basePlayerId p = Some []) \<and> ui_id p = None
      \<longrightarrow> base_id p = []) \<and>
   propagate ui_players local_players =
     (map (\<lambda>q. case core_photo local_players (base_id q) of
                 Some c \<Rightarrow> q\<lparr>ui_photoCode := Some c\<rparr> | None \<Rightarrow> q) ui_players,
      int (length (filter (\<lambda>q. core_photo local_players (base_id q) \<noteq> None) ui_players))) \<and>
   propagate
     [\<lparr>ui_basePlayerId = Some (str ''1-variantA''), ui_id = None, ui_photoCode = None\<rparr>]
     [\<lparr>lp_id = str ''1'', lp_name = nm, lp_photoCode = Some 101\<rparr>]
   = ([\<lparr>ui_basePlayerId = Some (str ''1-variantA''), ui_id = None, ui_photoCode = Some 101\<rparr>], 1)"
proof (intro conjI impI)
  assume "ui_basePlayerId p = Some b \<and> b \<noteq> []"
  then show "base_id p = before_hyphen b"
    by (simp add: base_id_def py_or_def before_hyphen_def)
next
  assume "(ui_basePlayerId p = None \<or> ui_basePlayerId p = Some []) \<and> ui_id p = Some i"
  then show "base_id p = before_hyphen i"
    by (auto simp: base_id_def py_or_def before_hyphen_def)
next
  assume "(ui_basePlayerId p = None \<or> ui_basePlayerId p = Some []) \<and> ui_id p = None"
  then show "base_id p = []"
    by (auto simp: base_id_def py_or_def)
next
  show "propagate ui_players local_players =
     (map (\<lambda>q. case core_photo local_players (base_id q) of
                 Some c \<Rightarrow> q\<lparr>ui_photoCode := Some c\<rparr> | None \<Rightarrow> q) ui_players,
      int (length (filter (\<lambda>q. core_photo local_players (base_id q) \<noteq> None) ui_players)))"
    by (rule propagate_eq)
next
  show "propagate
     [\<lparr>ui_basePlayerId = Some (str ''1-variantA''), ui_id = None, ui_photoCode = None\<rparr>]
     [\<lparr>lp_id = str ''1'', lp_name = nm, lp_photoCode = Some 101\<rparr>]
   = ([\<lparr>ui_basePlayerId = Some (str ''1-variantA''), ui_id = None, ui_photoCode = Some 101\<rparr>], 1)"
    by (simp add: propagate_def base_id_def py_or_def dict_set_def str_def)
qed

text \<open>
  The four shapes of a derived record (basePlayerId non-empty, absent, empty, and no
  identifier at all), and a run against three local players with the id 7: the last one
  with a non-zero photoCode gives the 101.
\<close>

theorem propagation_join_witness:
  "ui_basePlayerId variant_a = Some (str ''42-variantA'') \<and> str ''42-variantA'' \<noteq> [] \<and>
   base_id variant_a = str ''42'' \<and>
   ui_basePlayerId plain_card = None \<and> ui_id plain_card = Some (str ''42-b'') \<and>
   base_id plain_card = str ''42'' \<and>
   ui_basePlayerId empty_base = Some [] \<and> ui_id empty_base = Some (str ''7-x'') \<and>
   base_id empty_base = str ''7'' \<and>
   ui_basePlayerId no_ids = None \<and> ui_id no_ids = None \<and> base_id no_ids = [] \<and>
   core_photo [seven_old, seven, seven_zero] (str ''7'') = Some 101 \<and>
   core_photo [seven_old, seven, seven_zero] [] = None \<and>
   propagate [empty_base, no_ids] [seven_old, seven, seven_zero]
     = ([empty_base\<lparr>ui_photoCode := Some 101\<rparr>, no_ids], 1)"
  using propagation_join [where p = variant_a and b = "str ''42-variantA''"]
    propagation_join [where p = plain_card and i = "str ''42-b''"]
    propagation_join [where p = empty_base and i = "str ''7-x''"
       and ui_players = "[empty_base, no_ids]" and local_players = "[seven_old, seven, seven_zero]"]
    propagation_join [where p = no_ids]
  by (simp add: variant_a_def plain_card_def empty_base_def no_ids_def seven_def seven_old_def
        seven_zero_def core_photo_def has_photo_def before_hyphen_def base_id_def py_or_def str_def)

text \<open>
  C9. The counters of the report are ordered, 0 \<le> fuzzy matched \<le> matched \<le> number of
  players; and one player moves the counters by (0, 0), (1, 0) or (1, 1): at most one
  increment of each, and the fuzzy counter moves only together with the matched one.
\<close>

theorem report_counters_ordered:
  "(reconcile U ratio fpl_lookup local_players = (ps', matches, fuzzy_matches)
      \<longrightarrow> 0 \<le> fuzzy_matches \<and> fuzzy_matches \<le> matches \<and>
          matches \<le> int (length local_players)) \<and>
   (reconcile_loop U ratio fpl_lookup [player] (m, f) = (qs, m', f')
      \<longrightarrow> (m' = m \<and> f' = f) \<or> (m' = m + 1 \<and> (f' = f \<or> f' = f + 1)))"
proof (intro conjI impI)
  assume r: "reconcile U ratio fpl_lookup local_players = (ps', matches, fuzzy_matches)"
  have m: "matches = int (length (filter (is_matched U ratio fpl_lookup) local_players))"
    and f: "fuzzy_matches = int (length (filter (is_fuzzy U ratio fpl_lookup) local_players))"
    using r by (simp_all add: reconcile_def reconcile_loop_eq)
  show "0 \<le> fuzzy_matches" using f by simp
  show "fuzzy_matches \<le> matches"
    using m f fuzzy_le_matched [of U ratio fpl_lookup local_players] by simp
  show "matches \<le> int (length local_players)"
    using m length_filter_le [of "is_matched U ratio fpl_lookup" local_players] by simp
next
  assume "reconcile_loop U ratio fpl_lookup [player] (m, f) = (qs, m', f')"
  then show "(m' = m \<and> f' = f) \<or> (m' = m + 1 \<and> (f' = f \<or> f' = f + 1))"
    by (rule reconcile_loop_step)
qed

text \<open>
  Mo Salah and Zed against the index of the one record: 0 \<le> 0 \<le> 1 \<le> 2; and Mo Salah
  alone moves the counters from (5, 2) to (6, 2).
\<close>

theorem report_counters_ordered_witness:
  "reconcile ucd_basic (table_ratio []) (build_lookup ucd_basic [salah] []) [mo_salah, zed]
     = ([mo_salah\<lparr>lp_photoCode := Some 101\<rparr>, zed], 1, 0) \<and>
   (0::int) \<le> 0 \<and> (0::int) \<le> 1 \<and> (1::int) \<le> int (length [mo_salah, zed]) \<and>
   reconcile_loop ucd_basic (table_ratio []) (build_lookup ucd_basic [salah] []) [mo_salah] (5, 2)
     = ([mo_salah\<lparr>lp_photoCode := Some 101\<rparr>], 6, 2) \<and>
   (6::int) = 5 + 1 \<and> (2::int) = 2"
  using report_counters_ordered
      [of ucd_basic "table_ratio []" "build_lookup ucd_basic [salah] []" "[mo_salah, zed]"
          "[mo_salah\<lparr>lp_photoCode := Some 101\<rparr>, zed]" 1 0
          mo_salah 5 2 "[mo_salah\<lparr>lp_photoCode := Some 101\<rparr>]" 6 2]
    reconcile_mo_zed reconcile_mo_step
  by simp

text \<open>
  C10. A player whose name normalizes to the empty string, against an index that has
  no empty key and at least one non-empty key, is not left unmatched: the containment
  tier stores the code of the first non-empty key of the index, and the player is
  counted as matched (not as fuzzy).
\<close>

theorem empty_name_containment:
  assumes "normalize U (lp_name player) = []"
    and "[] \<notin> fst ` set fpl_lookup"
    and "find (\<lambda>kc. fst kc \<noteq> []) fpl_lookup = Some (k, c)"
  shows "resolve ratio (normalize U (lp_name player)) fpl_lookup = Some (c, Containment) \<and>
         reconcile U ratio fpl_lookup [player] = ([player\<lparr>lp_photoCode := Some c\<rparr>], 1, 0)"
proof -
  have hit: "containment_hit [] fpl_lookup = Some c"
    using assms(3) by (simp add: containment_hit_empty)
  have "map_of fpl_lookup [] = None"
    using assms(2) by (simp add: map_of_eq_None_iff)
  with hit have r: "resolve ratio [] fpl_lookup = Some (c, Containment)"
    by (simp add: resolve_def)
  then show ?thesis using assms(1) by (simp add: reconcile_def)
qed

text \<open>The name \<open>?!\<close> normalizes to the empty string and gets the code of kane.\<close>

theorem empty_name_containment_witness:
  "normalize ucd_basic (lp_name punct) = [] \<and> [] \<notin> fst ` set son_index \<and>
   find (\<lambda>kc. fst kc \<noteq> []) son_index = Some (str ''kane'', 9) \<and>
   resolve (table_ratio []) (normalize ucd_basic (lp_name punct)) son_index
     = Some (9, Containment) \<and>
   reconcile ucd_basic (table_ratio []) son_index [punct]
     = ([punct\<lparr>lp_photoCode := Some 9\<rparr>], 1, 0)"
  using empty_name_containment
    [of ucd_basic punct son_index "str ''kane''" 9 "table_ratio []"]
  by (simp add: punct_def son_index_def ucd_basic_eval)

end
